theory Spec2Isabelle
  imports Main "HOL-Library.Sublist" "HOL-Library.AList"
begin

section \<open>Python values used by the configuration code\<close>

text \<open>
  The exceptions the modelled code can raise. Each carries a key, a name or a short
  message of the Python exception (not its full text). \<open>ConfigurationIncomplete\<close> is the
  specification's name for a resolve in a partition without a default; it stands for
  what the structured store raises there.
\<close>

datatype error =
    KeyError string
  | ValueError string
  | TypeError string
  | AttributeError string
  | NoSectionError string
  | InterpolationSyntaxError string
  | InterpolationMissingOptionError string
  | InterpolationDepthError string
  | ConfigurationIncomplete

text \<open>Python's \<^verbatim>\<open>a in b\<close> on two strings: \<open>a\<close> occurs in \<open>b\<close> as a contiguous run.\<close>

fun str_in :: "string \<Rightarrow> string \<Rightarrow> bool" where
  "str_in s [] = (s = [])"
| "str_in s (c # cs) = (prefix s (c # cs) \<or> str_in s cs)"

text \<open>
  Python's \<^verbatim>\<open>s.split(d)\<close> for a one-character separator: every occurrence of the
  separator cuts, so the empty string gives one empty token and two separators in a row
  give an empty token between them.
\<close>

fun str_split :: "char \<Rightarrow> string \<Rightarrow> string list" where
  "str_split d [] = [[]]"
| "str_split d (c # cs) =
     (if c = d then [] # str_split d cs
      else (case str_split d cs of
              [] \<Rightarrow> [[c]]
            | w # ws \<Rightarrow> (c # w) # ws))"

text \<open>Python's \<^verbatim>\<open>d.join(xs)\<close> for a one-character separator.\<close>

fun str_join :: "char \<Rightarrow> string list \<Rightarrow> string" where
  "str_join d [] = []"
| "str_join d [x] = x"
| "str_join d (x # y # ys) = x @ d # str_join d (y # ys)"

text \<open>
  Python's \<^verbatim>\<open>s.lower()\<close>, the parser's \<^verbatim>\<open>optionxform\<close>, on the letters A to Z; every other
  character is left as it is.
\<close>

definition lower_char :: "char \<Rightarrow> char" where
  "lower_char c =
     (case map_of (zip ''ABCDEFGHIJKLMNOPQRSTUVWXYZ'' ''abcdefghijklmnopqrstuvwxyz'') c of
        None \<Rightarrow> c
      | Some l \<Rightarrow> l)"

definition lower :: "string \<Rightarrow> string" where
  "lower s = map lower_char s"

section \<open>The flat store: a ConfigParser\<close>

text \<open>
  \<^verbatim>\<open>CfgConfig\<close> (src/turmyx/config.py) and the command line's \<^verbatim>\<open>TurmyxConfig\<close>
  (src/turmyx.py) are both a \<^verbatim>\<open>ConfigParser\<close> with \<^verbatim>\<open>ExtendedInterpolation\<close>. Its state is
  the options of the \<^verbatim>\<open>DEFAULT\<close> section and the named sections in insertion order, each
  with its options in insertion order (Python dictionaries keep insertion order and hold
  a key once). Values are stored raw; they are interpolated when a section proxy is read
  and checked when they are set. Every option name the code itself uses is lower case,
  so the parser's lower-casing of those names changes nothing.
\<close>

type_synonym options = "(string \<times> string) list"

record config =
  defaults :: options
  sects :: "(string \<times> options) list"

definition empty_config :: config where
  "empty_config = \<lparr> defaults = [], sects = [] \<rparr>"

text \<open>\<^verbatim>\<open>self.sections()\<close>: the section names, without \<^verbatim>\<open>DEFAULT\<close>.\<close>

definition sections :: "config \<Rightarrow> string list" where
  "sections cfg = map fst (sects cfg)"

definition has_section :: "config \<Rightarrow> string \<Rightarrow> bool" where
  "has_section cfg section = (map_of (sects cfg) section \<noteq> None)"

text \<open>
  \<^verbatim>\<open>self[section]\<close>: the proxy of an existing section (here its name), KeyError otherwise.
\<close>

definition getitem :: "config \<Rightarrow> string \<Rightarrow> error + string" where
  "getitem cfg key =
     (if key = ''DEFAULT'' \<or> has_section cfg key then Inr key else Inl (KeyError key))"

text \<open>
  The raw value of an option as a section sees it (\<^verbatim>\<open>parser.get(section, key, raw=True)\<close>):
  the section's own option, else the one of \<^verbatim>\<open>DEFAULT\<close>. \<open>None\<close> is a missing section or
  option, and so \<^verbatim>\<open>key not in section\<close> for a section proxy.
\<close>

definition get_option :: "config \<Rightarrow> string \<Rightarrow> string \<Rightarrow> string option" where
  "get_option cfg section key =
     (if section = ''DEFAULT'' then map_of (defaults cfg) key
      else (case map_of (sects cfg) section of
              None \<Rightarrow> None
            | Some opts \<Rightarrow>
                (case map_of opts key of
                   Some v \<Rightarrow> Some v
                 | None \<Rightarrow> map_of (defaults cfg) key)))"

text \<open>
  \<^verbatim>\<open>ExtendedInterpolation\<close>, reading. A reference \<^verbatim>\<open>${option}\<close> names an option of the
  section at hand, \<^verbatim>\<open>${section:option}\<close> one of another section; the result is the section
  the value comes from and the raw value. More than one colon is a syntax error, a
  missing section or option an InterpolationMissingOptionError.
\<close>

definition reference :: "config \<Rightarrow> string \<Rightarrow> string list \<Rightarrow> error + string \<times> string" where
  "reference cfg section path =
     (case path of
        [opt] \<Rightarrow>
          (case get_option cfg section (lower opt) of
             None \<Rightarrow> Inl (InterpolationMissingOptionError opt)
           | Some v \<Rightarrow> Inr (section, v))
      | [sect, opt] \<Rightarrow>
          (case get_option cfg sect (lower opt) of
             None \<Rightarrow> Inl (InterpolationMissingOptionError (sect @ '':'' @ opt))
           | Some v \<Rightarrow> Inr (sect, v))
      | _ \<Rightarrow> Inl (InterpolationSyntaxError ''More than one colon found''))"

text \<open>
  \<^verbatim>\<open>_interpolate_some\<close>: the text up to a dollar sign is kept; \<^verbatim>\<open>$$\<close> gives one dollar sign;
  \<^verbatim>\<open>${...}\<close>, with at least one character before the closing brace, is replaced by the
  value it names, itself interpolated one level deeper when it holds a dollar sign; any
  other dollar sign is a syntax error. The depth starts at 1 and may not pass 10.
\<close>

function interpolate_some :: "config \<Rightarrow> nat \<Rightarrow> string \<Rightarrow> string \<Rightarrow> error + string" where
  "interpolate_some cfg depth section [] =
     (if depth > 10 then Inl (InterpolationDepthError section) else Inr [])"
| "interpolate_some cfg depth section (c # cs) =
     (if depth > 10 then Inl (InterpolationDepthError section)
      else if c \<noteq> CHR ''$'' then
        (case interpolate_some cfg depth section cs of
           Inl e \<Rightarrow> Inl e
         | Inr r \<Rightarrow> Inr (c # r))
      else
        (case cs of
           [] \<Rightarrow> Inl (InterpolationSyntaxError (c # cs))
         | c' # cs' \<Rightarrow>
             if c' = CHR ''$'' then
               (case interpolate_some cfg depth section cs' of
                  Inl e \<Rightarrow> Inl e
                | Inr r \<Rightarrow> Inr (CHR ''$'' # r))
             else if c' = CHR ''{'' then
               (let key = takeWhile (\<lambda>x. x \<noteq> CHR ''}'') cs' in
                if key = [] \<or> length key = length cs'
                then Inl (InterpolationSyntaxError (c # cs))
                else
                  (case reference cfg section (str_split CHR '':'' key) of
                     Inl e \<Rightarrow> Inl e
                   | Inr (sect, v) \<Rightarrow>
                       (case (if CHR ''$'' \<in> set v
                              then interpolate_some cfg (Suc depth) sect v
                              else Inr v) of
                          Inl e \<Rightarrow> Inl e
                        | Inr r1 \<Rightarrow>
                            (case interpolate_some cfg depth section
                                    (drop (Suc (length key)) cs') of
                               Inl e \<Rightarrow> Inl e
                             | Inr r2 \<Rightarrow> Inr (r1 @ r2)))))
             else Inl (InterpolationSyntaxError (c # cs))))"
  by pat_completeness auto
termination
  by (relation "measures [\<lambda>(cfg, depth, section, rest). 11 - depth,
                          \<lambda>(cfg, depth, section, rest). length rest]") auto

text \<open>\<^verbatim>\<open>before_get\<close>: the interpolated value of a raw value read in a section.\<close>

definition before_get :: "config \<Rightarrow> string \<Rightarrow> string \<Rightarrow> error + string" where
  "before_get cfg section v = interpolate_some cfg 1 section v"

text \<open>
  \<^verbatim>\<open>self[section][key]\<close> for a section proxy: KeyError on a missing option, else the
  interpolated value or the error of the interpolation.
\<close>

definition proxy_getitem :: "config \<Rightarrow> string \<Rightarrow> string \<Rightarrow> error + string" where
  "proxy_getitem cfg section key =
     (case get_option cfg section key of
        None \<Rightarrow> Inl (KeyError key)
      | Some v \<Rightarrow> before_get cfg section v)"

section \<open>Commands\<close>

text \<open>
  The \<^verbatim>\<open>Command\<close> value the store hands out, with the four fields its constructor is
  called with in \<^verbatim>\<open>CfgConfig.__get_command\<close>. The name can be missing (\<^verbatim>\<open>None\<close>).
\<close>

record command =
  command :: string
  args :: string
  classes :: "string list"
  name :: "string option"

section \<open>Resolution in the flat store\<close>

text \<open>
  The loop of \<^verbatim>\<open>CfgConfig.__get_section\<close>, also the loop of \<^verbatim>\<open>guess_file_command\<close> and
  \<^verbatim>\<open>guess_url_command\<close> of the command line: over the section names in order, skipping
  every name that contains \<^verbatim>\<open>default\<close> or does not contain the kind, and stopping at
  the first section whose space-separated class list holds the class name. Reading the
  class list of a section that has none raises KeyError, and a class list that cannot be
  interpolated raises the error of the interpolation. \<open>Inr None\<close> is the loop running
  to its end.
\<close>

fun scan_sections ::
  "config \<Rightarrow> string \<Rightarrow> string \<Rightarrow> string \<Rightarrow> string list \<Rightarrow> error + string option" where
  "scan_sections cfg section_kind class_kind class_name [] = Inr None"
| "scan_sections cfg section_kind class_kind class_name (section # rest) =
     (if \<not> str_in ''default'' section \<and> str_in section_kind section then
        (case proxy_getitem cfg section class_kind of
           Inl e \<Rightarrow> Inl e
         | Inr v \<Rightarrow>
             if class_name \<in> set (str_split CHR '' '' v) then Inr (Some section)
             else scan_sections cfg section_kind class_kind class_name rest)
      else scan_sections cfg section_kind class_kind class_name rest)"

definition get_section :: "config \<Rightarrow> string \<Rightarrow> string \<Rightarrow> string \<Rightarrow> error + string" where
  "get_section cfg section_kind class_kind class_name =
     (case scan_sections cfg section_kind class_kind class_name (sections cfg) of
        Inl e \<Rightarrow> Inl e
      | Inr (Some section) \<Rightarrow> getitem cfg section
      | Inr None \<Rightarrow> getitem cfg (section_kind @ '':default''))"

text \<open>
  The \<^verbatim>\<open>Command(...)\<close> expression of \<^verbatim>\<open>CfgConfig.__get_command\<close> for a section: its arguments
  are read in order, each through the section proxy, and the first failing read ends
  the call.
\<close>

definition read_command :: "config \<Rightarrow> string \<Rightarrow> string \<Rightarrow> error + command" where
  "read_command cfg class_kind section =
     (case proxy_getitem cfg section ''command'' of
        Inl e \<Rightarrow> Inl e
      | Inr cmd \<Rightarrow>
     (case (if get_option cfg section ''args'' \<noteq> None
            then proxy_getitem cfg section ''args'' else Inr []) of
        Inl e \<Rightarrow> Inl e
      | Inr a \<Rightarrow>
     (case (if get_option cfg section class_kind \<noteq> None
            then (case proxy_getitem cfg section class_kind of
                    Inl e \<Rightarrow> Inl e
                  | Inr v \<Rightarrow> Inr (str_split CHR '' '' v))
            else Inr []) of
        Inl e \<Rightarrow> Inl e
      | Inr cs \<Rightarrow>
          Inr \<lparr> command = cmd, args = a, classes = cs,
                name = Some (hd (str_split CHR '':'' section)) \<rparr>)))"

definition get_command :: "config \<Rightarrow> string \<Rightarrow> string \<Rightarrow> string \<Rightarrow> error + command" where
  "get_command cfg section_kind class_kind class_name =
     (case get_section cfg section_kind class_kind class_name of
        Inl e \<Rightarrow> Inl e
      | Inr section \<Rightarrow> read_command cfg class_kind section)"

definition get_file_editor :: "config \<Rightarrow> string \<Rightarrow> error + command" where
  "get_file_editor cfg extension = get_command cfg ''file-editors'' ''extensions'' extension"

definition get_url_opener :: "config \<Rightarrow> string \<Rightarrow> error + command" where
  "get_url_opener cfg domain = get_command cfg ''url-openers'' ''domains'' domain"

section \<open>Mutation of the flat store\<close>

text \<open>
  \<^verbatim>\<open>Path(p).name\<close>: the last component of the path, where empty components and
  single dots do not count; the empty string when there is none.
\<close>

definition path_name :: "string \<Rightarrow> string" where
  "path_name p =
     (case filter (\<lambda>s. s \<noteq> [] \<and> s \<noteq> ''.'') (str_split CHR ''/'' p) of
        [] \<Rightarrow> []
      | part # parts \<Rightarrow> last (part # parts))"

text \<open>
  \<^verbatim>\<open>self[section] = {}\<close>: an existing section is emptied where it stands, a new one is
  added at the end; for \<^verbatim>\<open>DEFAULT\<close> the default options are emptied.
\<close>

definition setitem_empty :: "config \<Rightarrow> string \<Rightarrow> config" where
  "setitem_empty cfg key =
     (if key = ''DEFAULT'' then cfg\<lparr>defaults := []\<rparr>
      else cfg\<lparr>sects := AList.update key [] (sects cfg)\<rparr>)"

text \<open>
  \<^verbatim>\<open>ExtendedInterpolation\<close>, writing (\<^verbatim>\<open>before_set\<close>): with every \<^verbatim>\<open>$$\<close> and then every
  reference \<^verbatim>\<open>${...}\<close> taken out, from left to right, no dollar sign may be left.
\<close>

fun drop_escaped :: "string \<Rightarrow> string" where
  "drop_escaped (a # b # r) =
     (if a = CHR ''$'' \<and> b = CHR ''$'' then drop_escaped r else a # drop_escaped (b # r))"
| "drop_escaped r = r"

fun drop_references :: "string \<Rightarrow> string" where
  "drop_references [] = []"
| "drop_references (c # r) =
     (if c = CHR ''$'' \<and> take 1 r = ''{'' \<and>
         takeWhile (\<lambda>x. x \<noteq> CHR ''}'') (drop 1 r) \<noteq> [] \<and>
         length (takeWhile (\<lambda>x. x \<noteq> CHR ''}'') (drop 1 r)) < length (drop 1 r)
      then drop_references
             (drop (Suc (Suc (length (takeWhile (\<lambda>x. x \<noteq> CHR ''}'') (drop 1 r))))) r)
      else c # drop_references r)"

definition before_set :: "string \<Rightarrow> error + string" where
  "before_set v =
     (if CHR ''$'' \<in> set (drop_references (drop_escaped v))
      then Inl (ValueError ''invalid interpolation syntax'')
      else Inr v)"

text \<open>The check of \<^verbatim>\<open>RawConfigParser.set\<close> on a value: \<^verbatim>\<open>if value: value = before_set(value)\<close>.\<close>

definition check_value :: "string \<Rightarrow> error + string" where
  "check_value v = (if v \<noteq> [] then before_set v else Inr v)"

text \<open>
  \<^verbatim>\<open>self.set(section, option, value)\<close>. The option name may be \<^verbatim>\<open>None\<close> (the result of a
  failed dictionary \<^verbatim>\<open>get\<close>), which the parser refuses with TypeError before it touches
  anything. Then the value is checked. Then an option of an existing section is
  overwritten where it stands, a new one is added at the end.
\<close>

definition cfg_set :: "config \<Rightarrow> string \<Rightarrow> string option \<Rightarrow> string \<Rightarrow> error + config" where
  "cfg_set cfg section option v =
     (case option of
        None \<Rightarrow> Inl (TypeError ''option keys must be strings'')
      | Some key \<Rightarrow>
          (case check_value v of
             Inl e \<Rightarrow> Inl e
           | Inr v' \<Rightarrow>
               if section = [] \<or> section = ''DEFAULT'' then
                 Inr (cfg\<lparr>defaults := AList.update key v' (defaults cfg)\<rparr>)
               else (case map_of (sects cfg) section of
                       None \<Rightarrow> Inl (NoSectionError section)
                     | Some opts \<Rightarrow>
                         Inr (cfg\<lparr>sects :=
                                AList.update section (AList.update key v' opts) (sects cfg)\<rparr>))))"

text \<open>\<^verbatim>\<open>TurmyxConfig.classes_name.get(kind)\<close>.\<close>

definition classes_name :: "string \<Rightarrow> string option" where
  "classes_name kind =
     (if kind = ''file-editors'' then Some ''extensions''
      else if kind = ''url-openers'' then Some ''domains''
      else None)"

text \<open>
  \<^verbatim>\<open>CfgConfig.__set_command\<close>. The store is changed in place, so the result is the store
  as the call leaves it together with the exception, if one was raised on the way.
\<close>

definition set_command :: "config \<Rightarrow> command \<Rightarrow> string \<Rightarrow> config \<times> error option" where
  "set_command cfg c kind =
     (let nm = (case name c of
                  None \<Rightarrow> path_name (command c)
                | Some n \<Rightarrow> if n \<noteq> [] then n else path_name (command c));
          section = kind @ '':'' @ nm;
          cfg1 = (if \<not> (section = ''DEFAULT'' \<or> has_section cfg section)
                  then setitem_empty cfg section else cfg)
      in case cfg_set cfg1 section (Some ''command'') (command c) of
           Inl e \<Rightarrow> (cfg1, Some e)
         | Inr cfg2 \<Rightarrow>
             (case cfg_set cfg2 section (Some ''args'') (args c) of
                Inl e \<Rightarrow> (cfg2, Some e)
              | Inr cfg3 \<Rightarrow>
                  (case cfg_set cfg3 section (classes_name kind)
                          (str_join CHR '' '' (classes c)) of
                     Inl e \<Rightarrow> (cfg3, Some e)
                   | Inr cfg4 \<Rightarrow> (cfg4, None))))"

text \<open>The section that \<^verbatim>\<open>__set_command\<close> writes for a Command: its kind, a colon and its name.\<close>

definition entry_section :: "string \<Rightarrow> command \<Rightarrow> string" where
  "entry_section kind c =
     kind @ '':'' @
       (case name c of
          None \<Rightarrow> path_name (command c)
        | Some n \<Rightarrow> if n \<noteq> [] then n else path_name (command c))"

definition set_file_editor :: "config \<Rightarrow> command \<Rightarrow> config \<times> error option" where
  "set_file_editor cfg c = set_command cfg c ''file-editors''"

definition set_url_opener :: "config \<Rightarrow> command \<Rightarrow> config \<times> error option" where
  "set_url_opener cfg c = set_command cfg c ''opener''"

text \<open>\<^verbatim>\<open>self.remove_section(section)\<close>: the store without the section, and whether it was there.\<close>

definition remove_section :: "config \<Rightarrow> string \<Rightarrow> config \<times> bool" where
  "remove_section cfg section =
     (if has_section cfg section
      then (cfg\<lparr>sects := AList.delete section (sects cfg)\<rparr>, True)
      else (cfg, False))"

definition remove_command :: "config \<Rightarrow> string \<Rightarrow> string \<Rightarrow> config \<times> error option" where
  "remove_command cfg command_name kind =
     (case remove_section cfg (kind @ '':'' @ command_name) of
        (cfg', True) \<Rightarrow> (cfg', None)
      | (cfg', False) \<Rightarrow> (cfg', Some (ValueError ''Command not found in config file.'')))"

definition remove_file_editor :: "config \<Rightarrow> string \<Rightarrow> config \<times> error option" where
  "remove_file_editor cfg command_name = remove_command cfg command_name ''file-editors''"

definition remove_url_opener :: "config \<Rightarrow> string \<Rightarrow> config \<times> error option" where
  "remove_url_opener cfg command_name = remove_command cfg command_name ''url-openers''"

section \<open>The command line (src/turmyx.py)\<close>

text \<open>\<^verbatim>\<open>os.path.basename\<close>: what follows the last slash.\<close>

definition basename :: "string \<Rightarrow> string" where
  "basename p = last (str_split CHR ''/'' p)"

text \<open>
  \<^verbatim>\<open>guess_file_command\<close>: the section name for a file. The fallback name is returned
  without looking whether the section exists.
\<close>

definition guess_file_command :: "config \<Rightarrow> string \<Rightarrow> error + string" where
  "guess_file_command cfg file =
     (let file_name = basename file;
          extension = last (str_split CHR ''.'' file_name)
      in case scan_sections cfg ''editor'' ''extensions'' extension (sections cfg) of
           Inl e \<Rightarrow> Inl e
         | Inr (Some section) \<Rightarrow> Inr section
         | Inr None \<Rightarrow> Inr ''editor:default'')"

text \<open>
  \<^verbatim>\<open>guess_url_command\<close>: the section name for a URL. The host of the URL comes from
  \<^verbatim>\<open>urlparse(url).netloc\<close> of the standard library, which raises ValueError for some
  texts; it is the parameter \<open>netloc\<close>, whose exception ends the call.
\<close>

definition guess_url_command ::
  "(string \<Rightarrow> error + string) \<Rightarrow> config \<Rightarrow> string \<Rightarrow> error + string" where
  "guess_url_command netloc cfg url =
     (case netloc url of
        Inl e \<Rightarrow> Inl e
      | Inr domain \<Rightarrow>
          if domain = [] then Inr ''opener:default''
          else (case scan_sections cfg ''opener'' ''domains'' domain (sections cfg) of
                  Inl e \<Rightarrow> Inl e
                | Inr (Some section) \<Rightarrow> Inr section
                | Inr None \<Rightarrow> Inr ''opener:default''))"

text \<open>
  The \<^verbatim>\<open>add\<close> command. \<open>which\<close> stands for \<^verbatim>\<open>shutil.which\<close> followed by
  \<^verbatim>\<open>os.path.abspath\<close>: the absolute path of the script, or nothing. The result is the
  store that is written back; a refused call leaves the store as it was, and a script
  path that the parser refuses ends the call with its ValueError.
\<close>

definition add ::
  "(string \<Rightarrow> string option) \<Rightarrow> config \<Rightarrow> string \<Rightarrow> string \<Rightarrow> string list \<Rightarrow> string option \<Rightarrow> bool
     \<Rightarrow> error + config" where
  "add which cfg script mode cases_list nm dflt =
     (if mode \<noteq> ''opener'' \<and> mode \<noteq> ''editor'' then Inr cfg
      else (case which script of
              None \<Rightarrow> Inr cfg
            | Some script_path \<Rightarrow>
                (let section =
                       (if \<not> dflt then
                          mode @ '':'' @
                            (case nm of
                               None \<Rightarrow> basename script_path
                             | Some n \<Rightarrow> if n \<noteq> [] then n else basename script_path)
                        else mode @ '':default'');
                     cfg1 = setitem_empty cfg section
                 in case cfg_set cfg1 section (Some ''command'') script_path of
                      Inl e \<Rightarrow> Inl e
                    | Inr cfg2 \<Rightarrow>
                        if cases_list \<noteq> [] \<and> \<not> dflt then
                          cfg_set cfg2 section
                            (Some (if mode = ''editor'' then ''extensions'' else ''domains''))
                            (str_join CHR '' '' cases_list)
                        else Inr cfg2)))"

text \<open>
  The \<^verbatim>\<open>remove\<close> command: the section is removed, or nothing is written and the section
  names that contain the given text are offered as guesses.
\<close>

datatype remove_outcome = Removed | NotFound "string list"

definition remove :: "config \<Rightarrow> string \<Rightarrow> config \<times> remove_outcome" where
  "remove cfg script =
     (case remove_section cfg script of
        (cfg', True) \<Rightarrow> (cfg', Removed)
      | (cfg', False) \<Rightarrow> (cfg', NotFound (filter (str_in script) (sections cfg'))))"

section \<open>The structured store: YAMLConfig\<close>

text \<open>
  What \<^verbatim>\<open>yaml.load\<close> returns and \<^verbatim>\<open>yaml.dump\<close> takes: nothing, a string, a sequence or a
  dictionary with string keys, in insertion order. The file is taken to hold exactly the
  dumped value, so that loading a dumped value gives it back.
\<close>

datatype yaml =
    YNone
  | YStr string
  | YList "yaml list"
  | YDict "(string \<times> yaml) list"

text \<open>\<^verbatim>\<open>x.get(key)\<close>: a dictionary answers \<^verbatim>\<open>None\<close> for a missing key; nothing else has \<^verbatim>\<open>get\<close>.\<close>

fun py_get :: "yaml \<Rightarrow> string \<Rightarrow> error + yaml" where
  "py_get (YDict m) key = Inr (case map_of m key of None \<Rightarrow> YNone | Some v \<Rightarrow> v)"
| "py_get _ key = Inl (AttributeError ''get'')"

text \<open>\<^verbatim>\<open>d[new] = d.pop(old)\<close> on one value.\<close>

fun rename_key :: "string \<Rightarrow> string \<Rightarrow> yaml \<Rightarrow> error + yaml" where
  "rename_key old new (YDict m) =
     (case map_of m old of
        None \<Rightarrow> Inl (KeyError old)
      | Some v \<Rightarrow> Inr (YDict (AList.update new v (AList.delete old m))))"
| "rename_key old new (YList xs) = Inl (TypeError ''pop'')"
| "rename_key old new _ = Inl (AttributeError ''pop'')"

text \<open>The loop \<^verbatim>\<open>for d in ....values(): d[new] = d.pop(old)\<close>, stopping at the first exception.\<close>

fun rename_all :: "string \<Rightarrow> string \<Rightarrow> (string \<times> yaml) list \<Rightarrow> error + (string \<times> yaml) list" where
  "rename_all old new [] = Inr []"
| "rename_all old new ((k, d) # rest) =
     (case rename_key old new d of
        Inl e \<Rightarrow> Inl e
      | Inr d' \<Rightarrow>
          (case rename_all old new rest of
             Inl e \<Rightarrow> Inl e
           | Inr rest' \<Rightarrow> Inr ((k, d') # rest')))"

text \<open>
  The loop together with its \<^verbatim>\<open>part.get("commands").values()\<close>; the commands are changed
  inside \<open>part\<close>, which is returned.
\<close>

definition rename_classes :: "string \<Rightarrow> string \<Rightarrow> yaml \<Rightarrow> error + yaml" where
  "rename_classes old new part =
     (case py_get part ''commands'' of
        Inl e \<Rightarrow> Inl e
      | Inr (YDict m) \<Rightarrow>
          (case rename_all old new m of
             Inl e \<Rightarrow> Inl e
           | Inr m' \<Rightarrow>
               (case part of
                  YDict pm \<Rightarrow> Inr (YDict (AList.update ''commands'' (YDict m') pm))
                | _ \<Rightarrow> Inr part))
      | Inr _ \<Rightarrow> Inl (AttributeError ''values''))"

text \<open>
  The state of a \<^verbatim>\<open>YAMLConfig\<close>: its two \<^verbatim>\<open>CommandDict\<close>s, \<^verbatim>\<open>None\<close> before a load. The class
  \<^verbatim>\<open>CommandDict\<close> is imported from \<^verbatim>\<open>turmyx.commands\<close>; load and save only construct it from
  a dictionary and ask it for one, so its type \<open>'cd\<close>, its constructor and its \<^verbatim>\<open>as_dict\<close>
  are parameters here.
\<close>

record 'cd yaml_config =
  file_editors :: "'cd option"
  url_openers :: "'cd option"

definition yaml_load :: "(yaml \<Rightarrow> error + 'cd) \<Rightarrow> yaml \<Rightarrow> error + 'cd yaml_config" where
  "yaml_load command_dict yml_data =
     (case py_get yml_data ''file-editors'' of
        Inl e \<Rightarrow> Inl e
      | Inr editors \<Rightarrow>
     (case rename_classes ''extensions'' ''classes'' editors of
        Inl e \<Rightarrow> Inl e
      | Inr editors' \<Rightarrow>
     (case command_dict editors' of
        Inl e \<Rightarrow> Inl e
      | Inr fe \<Rightarrow>
     (case py_get yml_data ''url-openers'' of
        Inl e \<Rightarrow> Inl e
      | Inr openers \<Rightarrow>
     (case rename_classes ''domains'' ''classes'' openers of
        Inl e \<Rightarrow> Inl e
      | Inr openers' \<Rightarrow>
     (case command_dict openers' of
        Inl e \<Rightarrow> Inl e
      | Inr uo \<Rightarrow> Inr \<lparr> file_editors = Some fe, url_openers = Some uo \<rparr>))))))"

definition yaml_as_dict :: "('cd \<Rightarrow> yaml) \<Rightarrow> 'cd yaml_config \<Rightarrow> error + yaml" where
  "yaml_as_dict as_dict cfg =
     (case file_editors cfg of
        None \<Rightarrow> Inl (AttributeError ''as_dict'')
      | Some fe \<Rightarrow>
     (case url_openers cfg of
        None \<Rightarrow> Inl (AttributeError ''as_dict'')
      | Some uo \<Rightarrow>
     (case rename_classes ''classes'' ''extensions'' (as_dict fe) of
        Inl e \<Rightarrow> Inl e
      | Inr editors \<Rightarrow>
     (case rename_classes ''classes'' ''domains'' (as_dict uo) of
        Inl e \<Rightarrow> Inl e
      | Inr openers \<Rightarrow>
          Inr (YDict [(''file_editors'', editors), (''url_openers'', openers)])))))"

text \<open>\<^verbatim>\<open>save\<close>: the dictionary of \<^verbatim>\<open>as_dict\<close>, dumped. The result is the content of the file.\<close>

definition yaml_save :: "('cd \<Rightarrow> yaml) \<Rightarrow> 'cd yaml_config \<Rightarrow> error + yaml" where
  "yaml_save as_dict cfg = yaml_as_dict as_dict cfg"

section \<open>Resolution in the structured store\<close>

text \<open>
  Modelled from the spec: the class \<^verbatim>\<open>CommandDict\<close> of \<^verbatim>\<open>turmyx/commands.py\<close>, which is not
  among the sources. The specification describes a partition as a mapping from Command
  name to Command, new entries appended, plus a default Command that may be absent.
\<close>

record command_dict =
  cd_default :: "command option"
  cd_commands :: "(string \<times> command) list"





section \<open>One rule set in both stores\<close>






section \<open>The vocabulary of the specification, on the flat store\<close>

text \<open>
  The flat encoding names the group of an entry \<^verbatim>\<open><kind>:<name>\<close> and the default group
  \<^verbatim>\<open><kind>:default\<close>. A non-default Command of the partition \<open>kind\<close> is therefore a section
  whose name starts with the kind and a colon and is not the default group's.
\<close>

definition is_entry :: "string \<Rightarrow> string \<Rightarrow> bool" where
  "is_entry kind s = (prefix (kind @ '':'') s \<and> s \<noteq> kind @ '':default'')"

text \<open>The non-default Commands of a partition, in insertion order.\<close>

definition entries :: "config \<Rightarrow> string \<Rightarrow> string list" where
  "entries cfg kind = filter (is_entry kind) (sections cfg)"

text \<open>
  The classes of a Command of the store: its class list as the section gives it, cut at
  the spaces; none when the list cannot be read.
\<close>

definition entry_classes :: "config \<Rightarrow> string \<Rightarrow> string \<Rightarrow> string list" where
  "entry_classes cfg ck s =
     (case proxy_getitem cfg s ck of
        Inl e \<Rightarrow> []
      | Inr v \<Rightarrow> str_split CHR '' '' v)"

text \<open>The first non-default Command of the partition whose classes contain the classifier.\<close>

definition first_entry :: "config \<Rightarrow> string \<Rightarrow> string \<Rightarrow> string \<Rightarrow> string option" where
  "first_entry cfg kind ck cls = find (\<lambda>s. cls \<in> set (entry_classes cfg ck s)) (entries cfg kind)"

text \<open>
  The names of the store keep to the encoding: the kind occurs only at the head of a
  section name, before the colon, and no entry's name contains the text \<^verbatim>\<open>default\<close>.
\<close>

definition tidy_names :: "config \<Rightarrow> string \<Rightarrow> bool" where
  "tidy_names cfg kind =
     (\<forall>s \<in> set (sections cfg).
        (str_in kind s \<longrightarrow> prefix (kind @ '':'') s) \<and>
        (is_entry kind s \<longrightarrow> \<not> str_in ''default'' s))"

text \<open>The class list of every non-default Command of the partition can be read.\<close>

definition classes_readable :: "config \<Rightarrow> string \<Rightarrow> string \<Rightarrow> bool" where
  "classes_readable cfg kind ck =
     (\<forall>s \<in> set (entries cfg kind). \<not> isl (proxy_getitem cfg s ck))"

text \<open>Every section of the partition, the default among them, can be read as a Command.\<close>

definition commands_readable :: "config \<Rightarrow> string \<Rightarrow> string \<Rightarrow> bool" where
  "commands_readable cfg kind ck =
     (\<forall>s \<in> set (sections cfg). prefix (kind @ '':'') s \<longrightarrow> \<not> isl (read_command cfg ck s))"


section \<open>Example stores\<close>

text \<open>The file-editor partition of the specification's scenario: nano, radare and the default vi.\<close>

definition ex_editors :: config where
  "ex_editors = \<lparr> defaults = [], sects =
     [(''file-editors:nano'', [(''command'', ''nano''), (''extensions'', ''txt md'')]),
      (''file-editors:radare'', [(''command'', ''r2''), (''extensions'', ''exe'')]),
      (''file-editors:default'', [(''command'', ''vi'')])] \<rparr>"


text \<open>A file-editor partition with a rule whose own name contains \<^verbatim>\<open>default\<close>.\<close>

definition ex_default_viewer :: config where
  "ex_default_viewer = \<lparr> defaults = [], sects =
     [(''file-editors:default-viewer'', [(''command'', ''less''), (''extensions'', ''txt'')]),
      (''file-editors:default'', [(''command'', ''vi'')])] \<rparr>"



text \<open>A url-opener partition with its default, and the opener of the specification's scenario.\<close>

definition ex_openers :: config where
  "ex_openers = \<lparr> defaults = [], sects =
     [(''url-openers:default'', [(''command'', ''qr'')])] \<rparr>"

definition ytdl :: command where
  "ytdl = \<lparr> command = ''/usr/bin/youtube-dl'', args = [],
            classes = [''youtube.com'', ''youtu.be''], name = Some ''ytdl'' \<rparr>"

text \<open>A store of the command line, with a rule of each mode.\<close>

definition ex_cli :: config where
  "ex_cli = \<lparr> defaults = [], sects =
     [(''editor:nano'', [(''command'', ''/usr/bin/nano''), (''extensions'', ''txt md'')]),
      (''opener:nano-web'', [(''command'', ''/usr/bin/nano-web''), (''domains'', ''example.org'')]),
      (''opener:default'', [(''command'', ''/usr/bin/qr'')])] \<rparr>"


text \<open>
  A stand-in for the host of a URL, used on examples only: what lies between
  \<^verbatim>\<open>http://\<close> and the next slash, nothing for a text that does not start so, and the
  ValueError of \<^verbatim>\<open>urlparse\<close> for a host with an opening bracket and no closing one.
\<close>

definition toy_netloc :: "string \<Rightarrow> error + string" where
  "toy_netloc url =
     (if prefix ''http://'' url then
        (let host = takeWhile (\<lambda>c. c \<noteq> CHR ''/'') (drop 7 url)
         in if CHR ''['' \<in> set host \<and> CHR '']'' \<notin> set host
            then Inl (ValueError ''Invalid IPv6 URL'')
            else Inr host)
      else Inr [])"

text \<open>A url-opener partition with the opener of the scenario and a default.\<close>

definition ex_url_openers :: config where
  "ex_url_openers = \<lparr> defaults = [], sects =
     [(''url-openers:ytdl'',
         [(''command'', ''/usr/bin/youtube-dl''), (''domains'', ''youtube.com youtu.be'')]),
      (''url-openers:default'', [(''command'', ''qr'')])] \<rparr>"




text \<open>A file-editor Command named like its kind, and a store with a section named the other way round.\<close>

definition kind_named :: command where
  "kind_named = \<lparr> command = ''/usr/bin/fe'', args = [], classes = [''txt''],
                  name = Some ''file-editors'' \<rparr>"

definition ex_reversed :: config where
  "ex_reversed = \<lparr> defaults = [], sects =
     [(''nano:file-editors'', [(''command'', ''nano''), (''extensions'', ''txt'')])] \<rparr>"

text \<open>
  A structured store for the examples, with the dictionaries themselves standing for the
  \<^verbatim>\<open>CommandDict\<close>s: nano for txt and the default vi among the editors, the default qr among
  the openers.
\<close>

definition ex_yaml :: "yaml yaml_config" where
  "ex_yaml =
     \<lparr> file_editors = Some (YDict
         [(''commands'', YDict
            [(''nano'', YDict [(''command'', YStr ''nano''), (''args'', YStr []),
                               (''classes'', YList [YStr ''txt''])])]),
          (''default'', YDict [(''command'', YStr ''vi'')])]),
       url_openers = Some (YDict
         [(''commands'', YDict []),
          (''default'', YDict [(''command'', YStr ''qr'')])]) \<rparr>"

text \<open>The file that \<^verbatim>\<open>load\<close> reads this store from: the kinds are spelt with hyphens.\<close>

definition ex_yaml_file :: yaml where
  "ex_yaml_file = YDict
     [(''file-editors'', YDict
         [(''commands'', YDict
            [(''nano'', YDict [(''command'', YStr ''nano''), (''args'', YStr []),
                               (''extensions'', YList [YStr ''txt''])])]),
          (''default'', YDict [(''command'', YStr ''vi'')])]),
      (''url-openers'', YDict
         [(''commands'', YDict []),
          (''default'', YDict [(''command'', YStr ''qr'')])])]"



section \<open>Facts about the string operations\<close>

lemma str_in_sublist: "str_in s t \<longleftrightarrow> sublist s t"
  by (induction t) (auto simp: sublist_Cons_right)


lemma str_in_suffix: "str_in s (t @ s)"
  using sublist_appendI [of s t "[]"] by (simp add: str_in_sublist)

lemma str_in_prefix: "prefix (s @ t) u \<Longrightarrow> str_in s u"
  by (auto simp: str_in_sublist prefix_def sublist_def intro: exI [of _ "[]"])

lemma str_split_nonempty: "str_split d s \<noteq> []"
  by (induction s) (auto split: list.splits)

lemma hd_str_split: "hd (str_split d s) = takeWhile (\<lambda>x. x \<noteq> d) s"
  by (induction s) (auto split: list.splits simp: str_split_nonempty)

lemma takeWhile_sep: "d \<notin> set xs \<Longrightarrow> takeWhile (\<lambda>x. x \<noteq> d) (xs @ d # ys) = xs"
  by (induction xs) auto


lemma find_holds: "find Q xs = Some x \<Longrightarrow> Q x \<and> x \<in> set xs"
  by (induction xs) (auto split: if_splits)

lemma find_filter: "find P (filter Q xs) = find (\<lambda>x. Q x \<and> P x) xs"
  by (induction xs) auto

lemma find_cong_set: "(\<And>x. x \<in> set xs \<Longrightarrow> P x = Q x) \<Longrightarrow> find P xs = find Q xs"
  by (induction xs) auto

section \<open>Facts about interpolation\<close>






lemma before_set_result: "before_set v = Inr v' \<Longrightarrow> v' = v"
  by (simp add: before_set_def split: if_splits)

section \<open>Facts about reading the flat store\<close>

lemmas store_defs =
  sections_def proxy_getitem_def get_option_def getitem_def has_section_def before_get_def

lemma has_section_iff: "has_section cfg s \<longleftrightarrow> s \<in> set (sections cfg)"
  by (auto simp: has_section_def sections_def map_of_eq_None_iff)

lemma getitem_section: "s \<in> set (sections cfg) \<Longrightarrow> getitem cfg s = Inr s"
  by (simp add: getitem_def has_section_iff)




text \<open>What a scan that stops, runs to its end or fails says about the sections it read.\<close>

lemma scan_Some:
  "scan_sections cfg kind ck cls names = Inr (Some s) \<Longrightarrow>
     s \<in> set names \<and> \<not> str_in ''default'' s \<and> str_in kind s \<and>
     (\<exists>v. proxy_getitem cfg s ck = Inr v \<and> cls \<in> set (str_split CHR '' '' v))"
  by (induction names) (auto split: sum.splits if_splits)


lemma scan_Inl:
  "scan_sections cfg kind ck cls names = Inl e \<Longrightarrow>
     \<exists>s \<in> set names. \<not> str_in ''default'' s \<and> str_in kind s \<and> proxy_getitem cfg s ck = Inl e"
  by (induction names) (auto split: sum.splits if_splits)



section \<open>Resolution\<close>

text \<open>
  Claim C10. A section whose name contains \<^verbatim>\<open>default\<close> is never the result of the
  classifier scan, whatever its class list holds: when resolve returns such a section,
  the scan has run to its end without a match and the section is the fallback
  \<^verbatim>\<open><kind>:default\<close>. The same holds for the scan of the command line.
\<close>

theorem default_sections_never_matched:
  "(scan_sections cfg kind ck cls names = Inr (Some s) \<longrightarrow> \<not> str_in ''default'' s) \<and>
   (get_section cfg kind ck cls = Inr s \<and> str_in ''default'' s
      \<longrightarrow> scan_sections cfg kind ck cls (sections cfg) = Inr None \<and> s = kind @ '':default'') \<and>
   (guess_file_command cfg file = Inr s \<and> str_in ''default'' s \<longrightarrow> s = ''editor:default'')"
proof (intro conjI impI)
  assume "scan_sections cfg kind ck cls names = Inr (Some s)"
  then show "\<not> str_in ''default'' s"
    by (auto dest: scan_Some)
next
  assume a: "get_section cfg kind ck cls = Inr s \<and> str_in ''default'' s"
  then show "scan_sections cfg kind ck cls (sections cfg) = Inr None"
    unfolding get_section_def
    by (auto simp: getitem_section split: sum.splits option.splits dest!: scan_Some)
  from a show "s = kind @ '':default''"
    unfolding get_section_def
    by (auto simp: getitem_def getitem_section
             split: sum.splits option.splits if_splits dest!: scan_Some)
next
  assume "guess_file_command cfg file = Inr s \<and> str_in ''default'' s"
  then show "s = ''editor:default''"
    unfolding guess_file_command_def Let_def
    by (auto split: sum.splits option.splits dest!: scan_Some)
qed

text \<open>
  The rule default-viewer lists txt, yet txt resolves to the fallback section: the scan
  passes over the rule because of its name.
\<close>

theorem default_sections_never_matched_witness:
  "get_option ex_default_viewer ''file-editors:default-viewer'' ''extensions'' = Some ''txt'' \<and>
   get_section ex_default_viewer ''file-editors'' ''extensions'' ''txt'' = Inr ''file-editors:default'' \<and>
   str_in ''default'' ''file-editors:default'' \<and>
   scan_sections ex_default_viewer ''file-editors'' ''extensions'' ''txt''
     (sections ex_default_viewer) = Inr None"
proof -
  have sec: "get_section ex_default_viewer ''file-editors'' ''extensions'' ''txt'' =
               Inr ''file-editors:default''"
    by (simp add: get_section_def ex_default_viewer_def store_defs)
  have d: "str_in ''default'' ''file-editors:default''"
    by simp
  have opt: "get_option ex_default_viewer ''file-editors:default-viewer'' ''extensions'' = Some ''txt''"
    by (simp add: ex_default_viewer_def store_defs)
  from default_sections_never_matched
         [of ex_default_viewer "''file-editors''" "''extensions''" "''txt''" "[]"
             "''file-editors:default''" "[]"] sec d
  have "scan_sections ex_default_viewer ''file-editors'' ''extensions'' ''txt''
          (sections ex_default_viewer) = Inr None"
    by blast
  with sec d opt show ?thesis by simp
qed

text \<open>Where every scanned section gives its class list, the scan is a search for the first match.\<close>

lemma scan_find:
  "(\<forall>s \<in> set names. \<not> str_in ''default'' s \<and> str_in kind s \<longrightarrow> \<not> isl (proxy_getitem cfg s ck))
   \<Longrightarrow> scan_sections cfg kind ck cls names =
         Inr (find (\<lambda>s. (\<not> str_in ''default'' s \<and> str_in kind s) \<and>
                         cls \<in> set (entry_classes cfg ck s)) names)"
  by (induction names) (auto simp: entry_classes_def split: sum.splits)

text \<open>
  In a store whose names keep to the encoding, the sections that the scan reads are the
  non-default Commands of the partition.
\<close>

lemma tidy_scanned:
  assumes "tidy_names cfg kind" and "s \<in> set (sections cfg)"
  shows "(\<not> str_in ''default'' s \<and> str_in kind s) \<longleftrightarrow> is_entry kind s"
proof
  assume a: "\<not> str_in ''default'' s \<and> str_in kind s"
  then have "prefix (kind @ '':'') s"
    using assms by (auto simp: tidy_names_def)
  moreover have "s \<noteq> kind @ '':default''"
    using a str_in_suffix [of "''default''" "kind @ '':''"] by auto
  ultimately show "is_entry kind s" by (simp add: is_entry_def)
next
  assume e: "is_entry kind s"
  then have "\<not> str_in ''default'' s"
    using assms by (auto simp: tidy_names_def)
  moreover have "str_in kind s"
    using e by (auto simp: is_entry_def intro: str_in_prefix)
  ultimately show "\<not> str_in ''default'' s \<and> str_in kind s" by simp
qed

lemma scan_first_entry:
  assumes tidy: "tidy_names cfg kind" and readable: "classes_readable cfg kind ck"
  shows "scan_sections cfg kind ck cls (sections cfg) = Inr (first_entry cfg kind ck cls)"
proof -
  have "\<forall>s \<in> set (sections cfg).
          \<not> str_in ''default'' s \<and> str_in kind s \<longrightarrow> \<not> isl (proxy_getitem cfg s ck)"
    using readable tidy_scanned [OF tidy] by (auto simp: classes_readable_def entries_def)
  then have "scan_sections cfg kind ck cls (sections cfg) =
      Inr (find (\<lambda>s. (\<not> str_in ''default'' s \<and> str_in kind s) \<and>
                      cls \<in> set (entry_classes cfg ck s)) (sections cfg))"
    by (rule scan_find)
  also have "find (\<lambda>s. (\<not> str_in ''default'' s \<and> str_in kind s) \<and>
                      cls \<in> set (entry_classes cfg ck s)) (sections cfg) =
             find (\<lambda>s. is_entry kind s \<and> cls \<in> set (entry_classes cfg ck s)) (sections cfg)"
    using tidy_scanned [OF tidy] by (intro find_cong_set) auto
  finally show ?thesis
    by (simp add: first_entry_def entries_def find_filter)
qed

lemma first_entry_section: "first_entry cfg kind ck cls = Some s \<Longrightarrow> s \<in> set (sections cfg)"
  by (auto simp: first_entry_def entries_def dest: find_holds)

lemma get_command_first_entry:
  assumes "tidy_names cfg kind" and "classes_readable cfg kind ck"
  shows "get_command cfg kind ck cls =
           (case first_entry cfg kind ck cls of
              Some s \<Rightarrow> read_command cfg ck s
            | None \<Rightarrow>
                (case getitem cfg (kind @ '':default'') of
                   Inl e \<Rightarrow> Inl e
                 | Inr s \<Rightarrow> read_command cfg ck s))"
  using scan_first_entry [OF assms, of cls]
  by (auto simp: get_command_def get_section_def getitem_section
           dest: first_entry_section split: option.splits)

text \<open>
  Claim C1, as the code has it. In a store whose names keep to the encoding (the kind
  occurs only at the head of a section name and no entry's name contains the text
  \<^verbatim>\<open>default\<close>) and whose non-default Commands all give a class list, resolve returns the
  first non-default Command of the partition, in insertion order, whose classes contain
  the classifier, and the default Command when there is none. This holds for the
  editors and the openers of the store and for the two resolvers of the command line,
  which return the section's name.
\<close>

theorem resolve_first_entry_or_default:
  "(tidy_names cfg ''file-editors'' \<and> classes_readable cfg ''file-editors'' ''extensions''
      \<longrightarrow> get_file_editor cfg ext =
            (case first_entry cfg ''file-editors'' ''extensions'' ext of
               Some s \<Rightarrow> read_command cfg ''extensions'' s
             | None \<Rightarrow>
                 (case getitem cfg ''file-editors:default'' of
                    Inl e \<Rightarrow> Inl e
                  | Inr s \<Rightarrow> read_command cfg ''extensions'' s))) \<and>
   (tidy_names cfg ''url-openers'' \<and> classes_readable cfg ''url-openers'' ''domains''
      \<longrightarrow> get_url_opener cfg dmn =
            (case first_entry cfg ''url-openers'' ''domains'' dmn of
               Some s \<Rightarrow> read_command cfg ''domains'' s
             | None \<Rightarrow>
                 (case getitem cfg ''url-openers:default'' of
                    Inl e \<Rightarrow> Inl e
                  | Inr s \<Rightarrow> read_command cfg ''domains'' s))) \<and>
   (tidy_names cfg ''editor'' \<and> classes_readable cfg ''editor'' ''extensions''
      \<longrightarrow> guess_file_command cfg path =
            Inr (case first_entry cfg ''editor'' ''extensions''
                        (last (str_split CHR ''.'' (basename path))) of
                   Some s \<Rightarrow> s
                 | None \<Rightarrow> ''editor:default'')) \<and>
   (tidy_names cfg ''opener'' \<and> classes_readable cfg ''opener'' ''domains'' \<and>
    netloc url = Inr host \<and> host \<noteq> []
      \<longrightarrow> guess_url_command netloc cfg url =
            Inr (case first_entry cfg ''opener'' ''domains'' host of
                   Some s \<Rightarrow> s
                 | None \<Rightarrow> ''opener:default''))"
proof (intro conjI impI)
  assume "tidy_names cfg ''file-editors'' \<and> classes_readable cfg ''file-editors'' ''extensions''"
  then show "get_file_editor cfg ext =
            (case first_entry cfg ''file-editors'' ''extensions'' ext of
               Some s \<Rightarrow> read_command cfg ''extensions'' s
             | None \<Rightarrow>
                 (case getitem cfg ''file-editors:default'' of
                    Inl e \<Rightarrow> Inl e
                  | Inr s \<Rightarrow> read_command cfg ''extensions'' s))"
    using get_command_first_entry [of cfg "''file-editors''" "''extensions''" ext]
    by (simp add: get_file_editor_def split: option.splits)
next
  assume "tidy_names cfg ''url-openers'' \<and> classes_readable cfg ''url-openers'' ''domains''"
  then show "get_url_opener cfg dmn =
            (case first_entry cfg ''url-openers'' ''domains'' dmn of
               Some s \<Rightarrow> read_command cfg ''domains'' s
             | None \<Rightarrow>
                 (case getitem cfg ''url-openers:default'' of
                    Inl e \<Rightarrow> Inl e
                  | Inr s \<Rightarrow> read_command cfg ''domains'' s))"
    using get_command_first_entry [of cfg "''url-openers''" "''domains''" dmn]
    by (simp add: get_url_opener_def split: option.splits)
next
  assume "tidy_names cfg ''editor'' \<and> classes_readable cfg ''editor'' ''extensions''"
  then show "guess_file_command cfg path =
            Inr (case first_entry cfg ''editor'' ''extensions''
                        (last (str_split CHR ''.'' (basename path))) of
                   Some s \<Rightarrow> s
                 | None \<Rightarrow> ''editor:default'')"
    using scan_first_entry [of cfg "''editor''" "''extensions''"]
    by (simp add: guess_file_command_def Let_def split: option.splits)
next
  assume "tidy_names cfg ''opener'' \<and> classes_readable cfg ''opener'' ''domains'' \<and>
          netloc url = Inr host \<and> host \<noteq> []"
  then show "guess_url_command netloc cfg url =
            Inr (case first_entry cfg ''opener'' ''domains'' host of
                   Some s \<Rightarrow> s
                 | None \<Rightarrow> ''opener:default'')"
    using scan_first_entry [of cfg "''opener''" "''domains''"]
    by (simp add: guess_url_command_def split: option.splits)
qed

lemmas vocabulary_defs =
  tidy_names_def classes_readable_def commands_readable_def first_entry_def entries_def
  is_entry_def entry_classes_def

lemmas resolve_defs =
  get_file_editor_def get_url_opener_def get_command_def get_section_def read_command_def

text \<open>
  The scenario of the specification: with nano for txt and md, radare for exe and the
  default vi, md resolves to nano, exe to radare and bin to the default; youtu.be resolves
  to the opener that lists it; and the command line finds nano for a file ending in md
  and the opener of example.org for its URL.
\<close>

theorem resolve_first_entry_or_default_witness:
  "tidy_names ex_editors ''file-editors'' \<and>
   classes_readable ex_editors ''file-editors'' ''extensions'' \<and>
   get_file_editor ex_editors ''md'' =
     Inr \<lparr>command = ''nano'', args = [], classes = [''txt'', ''md''],
          name = Some ''file-editors''\<rparr> \<and>
   get_file_editor ex_editors ''exe'' =
     Inr \<lparr>command = ''r2'', args = [], classes = [''exe''], name = Some ''file-editors''\<rparr> \<and>
   get_file_editor ex_editors ''bin'' =
     Inr \<lparr>command = ''vi'', args = [], classes = [], name = Some ''file-editors''\<rparr> \<and>
   tidy_names ex_url_openers ''url-openers'' \<and>
   classes_readable ex_url_openers ''url-openers'' ''domains'' \<and>
   get_url_opener ex_url_openers ''youtu.be'' =
     Inr \<lparr>command = ''/usr/bin/youtube-dl'', args = [],
          classes = [''youtube.com'', ''youtu.be''], name = Some ''url-openers''\<rparr> \<and>
   tidy_names ex_cli ''editor'' \<and> classes_readable ex_cli ''editor'' ''extensions'' \<and>
   guess_file_command ex_cli ''/home/u/notes.md'' = Inr ''editor:nano'' \<and>
   tidy_names ex_cli ''opener'' \<and> classes_readable ex_cli ''opener'' ''domains'' \<and>
   toy_netloc ''http://example.org/x'' = Inr ''example.org'' \<and>
   guess_url_command toy_netloc ex_cli ''http://example.org/x'' = Inr ''opener:nano-web''"
proof -
  have e: "tidy_names ex_editors ''file-editors'' \<and>
           classes_readable ex_editors ''file-editors'' ''extensions''"
    by (simp add: vocabulary_defs ex_editors_def store_defs)
  have u: "tidy_names ex_url_openers ''url-openers'' \<and>
           classes_readable ex_url_openers ''url-openers'' ''domains''"
    by (simp add: vocabulary_defs ex_url_openers_def store_defs)
  have c: "tidy_names ex_cli ''editor'' \<and> classes_readable ex_cli ''editor'' ''extensions''"
    by (simp add: vocabulary_defs ex_cli_def store_defs)
  have n: "toy_netloc ''http://example.org/x'' = Inr ''example.org''"
    by (simp add: toy_netloc_def)
  have ne: "''example.org'' \<noteq> []"
    by simp
  have ol: "tidy_names ex_cli ''opener'' \<and> classes_readable ex_cli ''opener'' ''domains''"
    by (simp add: vocabulary_defs ex_cli_def store_defs)
  have md: "get_file_editor ex_editors ''md'' =
     Inr \<lparr>command = ''nano'', args = [], classes = [''txt'', ''md''],
          name = Some ''file-editors''\<rparr>"
    using resolve_first_entry_or_default [where cfg = ex_editors and ext = "''md''"] e
    by (simp add: vocabulary_defs read_command_def ex_editors_def store_defs)
  have exe: "get_file_editor ex_editors ''exe'' =
     Inr \<lparr>command = ''r2'', args = [], classes = [''exe''], name = Some ''file-editors''\<rparr>"
    using resolve_first_entry_or_default [where cfg = ex_editors and ext = "''exe''"] e
    by (simp add: vocabulary_defs read_command_def ex_editors_def store_defs)
  have bin: "get_file_editor ex_editors ''bin'' =
     Inr \<lparr>command = ''vi'', args = [], classes = [], name = Some ''file-editors''\<rparr>"
    using resolve_first_entry_or_default [where cfg = ex_editors and ext = "''bin''"] e
    by (simp add: vocabulary_defs read_command_def ex_editors_def store_defs)
  have yt: "get_url_opener ex_url_openers ''youtu.be'' =
     Inr \<lparr>command = ''/usr/bin/youtube-dl'', args = [],
          classes = [''youtube.com'', ''youtu.be''], name = Some ''url-openers''\<rparr>"
    using resolve_first_entry_or_default [where cfg = ex_url_openers and dmn = "''youtu.be''"] u
    by (simp add: vocabulary_defs read_command_def ex_url_openers_def store_defs)
  have gf: "guess_file_command ex_cli ''/home/u/notes.md'' = Inr ''editor:nano''"
    using resolve_first_entry_or_default [where cfg = ex_cli and path = "''/home/u/notes.md''"] c
    by (simp add: vocabulary_defs basename_def ex_cli_def store_defs)
  have gu: "guess_url_command toy_netloc ex_cli ''http://example.org/x'' = Inr ''opener:nano-web''"
    using resolve_first_entry_or_default
            [where cfg = ex_cli and netloc = toy_netloc and url = "''http://example.org/x''"
               and host = "''example.org''"] ol n ne
    by (simp add: vocabulary_defs ex_cli_def store_defs)
  show ?thesis
    using e u c ol n md exe bin yt gf gu by simp
qed

text \<open>
  Against claim C1 as stated: default-viewer is a non-default Command of the file editors
  and the first whose classes contain txt, its executable is less; yet txt resolves to
  the default vi.
\<close>

theorem resolve_skips_entry_counterexample:
  "entries ex_default_viewer ''file-editors'' = [''file-editors:default-viewer''] \<and>
   entry_classes ex_default_viewer ''extensions'' ''file-editors:default-viewer'' = [''txt''] \<and>
   first_entry ex_default_viewer ''file-editors'' ''extensions'' ''txt'' =
     Some ''file-editors:default-viewer'' \<and>
   read_command ex_default_viewer ''extensions'' ''file-editors:default-viewer'' =
     Inr \<lparr>command = ''less'', args = [], classes = [''txt''], name = Some ''file-editors''\<rparr> \<and>
   get_file_editor ex_default_viewer ''txt'' =
     Inr \<lparr>command = ''vi'', args = [], classes = [], name = Some ''file-editors''\<rparr>"
  by (simp add: vocabulary_defs resolve_defs ex_default_viewer_def store_defs)

text \<open>
  Claim C9, as the code has it. The name of every Command that the flat store returns is
  the text of the matched section's name before its first colon. For a section named
  \<^verbatim>\<open><kind>:<entry>\<close>, the form the flat encoding gives every rule, that text is the kind,
  whichever entry matched, and it differs from the entry's own name unless the entry is
  itself named like the kind.
\<close>

theorem command_name_is_kind:
  assumes "get_command cfg kind ck cls = Inr c"
  shows "\<exists>s. get_section cfg kind ck cls = Inr s \<and>
             name c = Some (takeWhile (\<lambda>x. x \<noteq> CHR '':'') s) \<and>
             (\<forall>entry. CHR '':'' \<notin> set kind \<and> s = kind @ '':'' @ entry
                \<longrightarrow> name c = Some kind \<and> (entry \<noteq> kind \<longrightarrow> name c \<noteq> Some entry))"
  using assms unfolding get_command_def read_command_def
  by (auto simp: hd_str_split takeWhile_sep split: sum.splits)

text \<open>In the scenario, md is matched by the section of nano and the Command is named file-editors.\<close>

theorem command_name_is_kind_witness:
  "get_command ex_editors ''file-editors'' ''extensions'' ''md'' =
     Inr \<lparr>command = ''nano'', args = [], classes = [''txt'', ''md''],
          name = Some ''file-editors''\<rparr> \<and>
   get_section ex_editors ''file-editors'' ''extensions'' ''md'' = Inr (''file-editors'' @ '':'' @ ''nano'') \<and>
   name \<lparr>command = ''nano'', args = [], classes = [''txt'', ''md''],
          name = Some ''file-editors''\<rparr> \<noteq> Some ''nano''"
proof -
  have sec: "get_section ex_editors ''file-editors'' ''extensions'' ''md'' = Inr ''file-editors:nano''"
    by (simp add: get_section_def ex_editors_def store_defs)
  have cmd: "get_command ex_editors ''file-editors'' ''extensions'' ''md'' =
     Inr \<lparr>command = ''nano'', args = [], classes = [''txt'', ''md''],
          name = Some ''file-editors''\<rparr>"
    by (simp add: get_command_def sec) (simp add: read_command_def ex_editors_def store_defs)
  from command_name_is_kind [OF cmd] sec
  have "CHR '':'' \<notin> set ''file-editors'' \<and> ''file-editors:nano'' = ''file-editors'' @ '':'' @ ''nano''
        \<longrightarrow> name \<lparr>command = ''nano'', args = [], classes = [''txt'', ''md''],
                  name = Some ''file-editors''\<rparr> \<noteq> Some ''nano''"
    by auto
  then show ?thesis using cmd sec by simp
qed

lemmas change_defs =
  set_file_editor_def set_url_opener_def set_command_def path_name_def setitem_empty_def
  cfg_set_def check_value_def classes_name_def before_set_def Let_def

text \<open>
  Against claim C9 as stated: the store accepts a Command named like its kind, and txt
  then resolves to a Command whose name is the entry's own name; and a section named
  nano:file-editors, which the scan of the file editors reads, resolves to a Command
  named nano, not like the kind.
\<close>

theorem command_name_counterexample:
  "set_file_editor empty_config kind_named =
     (\<lparr> defaults = [], sects =
        [(''file-editors:file-editors'',
           [(''command'', ''/usr/bin/fe''), (''args'', []), (''extensions'', ''txt'')])] \<rparr>,
      None) \<and>
   name kind_named = Some ''file-editors'' \<and>
   get_file_editor (fst (set_file_editor empty_config kind_named)) ''txt'' =
     Inr \<lparr>command = ''/usr/bin/fe'', args = [], classes = [''txt''],
          name = Some ''file-editors''\<rparr> \<and>
   get_file_editor ex_reversed ''txt'' =
     Inr \<lparr>command = ''nano'', args = [], classes = [''txt''], name = Some ''nano''\<rparr>"
proof -
  have upd: "set_file_editor empty_config kind_named =
     (\<lparr> defaults = [], sects =
        [(''file-editors:file-editors'',
           [(''command'', ''/usr/bin/fe''), (''args'', []), (''extensions'', ''txt'')])] \<rparr>,
      None)"
    by (simp add: change_defs empty_config_def kind_named_def has_section_def)
  have after: "get_file_editor (fst (set_file_editor empty_config kind_named)) ''txt'' =
     Inr \<lparr>command = ''/usr/bin/fe'', args = [], classes = [''txt''],
          name = Some ''file-editors''\<rparr>"
    by (simp add: upd) (simp add: resolve_defs store_defs)
  have rev: "get_file_editor ex_reversed ''txt'' =
     Inr \<lparr>command = ''nano'', args = [], classes = [''txt''], name = Some ''nano''\<rparr>"
    by (simp add: resolve_defs ex_reversed_def store_defs)
  show ?thesis using upd after rev by (simp add: kind_named_def)
qed





section \<open>Facts about changing the flat store\<close>















lemma check_value_result: "check_value v = Inr v' \<Longrightarrow> v' = v"
  by (auto simp: check_value_def dest: before_set_result split: if_splits)

lemma cfg_set_existing:
  "map_of (sects cfg) S = Some opts \<Longrightarrow> S \<noteq> [] \<Longrightarrow> S \<noteq> ''DEFAULT'' \<Longrightarrow>
   cfg_set cfg S (Some key) v =
     (case check_value v of
        Inl e \<Rightarrow> Inl e
      | Inr v' \<Rightarrow> Inr (cfg\<lparr>sects := AList.update S (AList.update key v opts) (sects cfg)\<rparr>))"
  by (auto simp: cfg_set_def dest: check_value_result split: sum.splits)

lemma colon_name_not_DEFAULT: "kind @ CHR '':'' # nm \<noteq> ''DEFAULT''"
proof
  assume "kind @ CHR '':'' # nm = ''DEFAULT''"
  then have "set (kind @ CHR '':'' # nm) = set ''DEFAULT''" by simp
  then have "CHR '':'' \<in> set ''DEFAULT''" by (metis in_set_conv_decomp)
  then show False by simp
qed

text \<open>
  What \<^verbatim>\<open>__set_command\<close> leaves behind. The section of the Command is there, emptied when
  new. Its executable, its arguments and, when the kind has a class key, its classes are
  set in this order; the first value that the parser refuses, or the missing class key,
  ends the call with what was set so far.
\<close>

lemma set_command_steps:
  "set_command cfg c kind =
     (let S = entry_section kind c;
          old = (case map_of (sects cfg) S of None \<Rightarrow> [] | Some opts \<Rightarrow> opts);
          o2 = AList.update ''command'' (command c) old;
          o3 = AList.update ''args'' (args c) o2
      in case check_value (command c) of
           Inl e \<Rightarrow> (cfg\<lparr>sects := AList.update S old (sects cfg)\<rparr>, Some e)
         | Inr v1 \<Rightarrow>
        (case check_value (args c) of
           Inl e \<Rightarrow> (cfg\<lparr>sects := AList.update S o2 (sects cfg)\<rparr>, Some e)
         | Inr v2 \<Rightarrow>
        (case classes_name kind of
           None \<Rightarrow>
             (cfg\<lparr>sects := AList.update S o3 (sects cfg)\<rparr>,
              Some (TypeError ''option keys must be strings''))
         | Some ck \<Rightarrow>
        (case check_value (str_join CHR '' '' (classes c)) of
           Inl e \<Rightarrow> (cfg\<lparr>sects := AList.update S o3 (sects cfg)\<rparr>, Some e)
         | Inr v3 \<Rightarrow>
             (cfg\<lparr>sects := AList.update S
                     (AList.update ck (str_join CHR '' '' (classes c)) o3) (sects cfg)\<rparr>,
              None)))))"
proof -
  define S where "S = entry_section kind c"
  define old where "old = (case map_of (sects cfg) S of None \<Rightarrow> [] | Some opts \<Rightarrow> opts)"
  define cfg1 where
    "cfg1 = (if \<not> (S = ''DEFAULT'' \<or> has_section cfg S) then setitem_empty cfg S else cfg)"
  define o2 where "o2 = AList.update ''command'' (command c) old"
  define o3 where "o3 = AList.update ''args'' (args c) o2"
  define cfg2 where "cfg2 = cfg1\<lparr>sects := AList.update S o2 (sects cfg1)\<rparr>"
  define cfg3 where "cfg3 = cfg2\<lparr>sects := AList.update S o3 (sects cfg2)\<rparr>"
  define cfg4 where "cfg4 = (\<lambda>ck. cfg3\<lparr>sects := AList.update S
                   (AList.update ck (str_join CHR '' '' (classes c)) o3) (sects cfg3)\<rparr>)"
  have ne: "S \<noteq> ''DEFAULT''" "S \<noteq> []"
    by (simp_all add: S_def entry_section_def colon_name_not_DEFAULT)
  have m1: "map_of (sects cfg1) S = Some old"
    using ne by (auto simp: cfg1_def old_def setitem_empty_def has_section_def update_conv'
                      split: option.splits)
  have e1: "cfg_set cfg1 S (Some ''command'') (command c) =
      (case check_value (command c) of Inl e \<Rightarrow> Inl e | Inr v' \<Rightarrow> Inr cfg2)"
    unfolding cfg2_def o2_def by (rule cfg_set_existing [OF m1 ne(2) ne(1)])
  have m2: "map_of (sects cfg2) S = Some o2"
    by (simp add: cfg2_def update_conv')
  have e2: "cfg_set cfg2 S (Some ''args'') (args c) =
      (case check_value (args c) of Inl e \<Rightarrow> Inl e | Inr v' \<Rightarrow> Inr cfg3)"
    unfolding cfg3_def o3_def by (rule cfg_set_existing [OF m2 ne(2) ne(1)])
  have m3: "map_of (sects cfg3) S = Some o3"
    by (simp add: cfg3_def update_conv')
  have e3: "cfg_set cfg3 S (Some ck) (str_join CHR '' '' (classes c)) =
      (case check_value (str_join CHR '' '' (classes c)) of
         Inl e \<Rightarrow> Inl e | Inr v' \<Rightarrow> Inr (cfg4 ck))" for ck
    unfolding cfg4_def by (rule cfg_set_existing [OF m3 ne(2) ne(1)])
  have e3': "cfg_set cfg3 S None (str_join CHR '' '' (classes c)) =
            Inl (TypeError ''option keys must be strings'')"
    by (simp add: cfg_set_def)
  have c1: "cfg1 = cfg\<lparr>sects := AList.update S old (sects cfg)\<rparr>"
    using ne
    by (auto simp: cfg1_def old_def setitem_empty_def has_section_def update_triv
             split: option.splits)
  have c2: "cfg2 = cfg\<lparr>sects := AList.update S o2 (sects cfg)\<rparr>"
    by (simp add: cfg2_def c1)
  have c3: "cfg3 = cfg\<lparr>sects := AList.update S o3 (sects cfg)\<rparr>"
    by (simp add: cfg3_def c2)
  have c4: "cfg4 ck = cfg\<lparr>sects := AList.update S
                   (AList.update ck (str_join CHR '' '' (classes c)) o3) (sects cfg)\<rparr>" for ck
    by (simp add: cfg4_def c3)
  have unfolded: "set_command cfg c kind =
      (case cfg_set cfg1 S (Some ''command'') (command c) of
         Inl e \<Rightarrow> (cfg1, Some e)
       | Inr c2 \<Rightarrow>
           (case cfg_set c2 S (Some ''args'') (args c) of
              Inl e \<Rightarrow> (c2, Some e)
            | Inr c3 \<Rightarrow>
                (case cfg_set c3 S (classes_name kind) (str_join CHR '' '' (classes c)) of
                   Inl e \<Rightarrow> (c3, Some e)
                 | Inr c4 \<Rightarrow> (c4, None))))"
    unfolding set_command_def Let_def S_def entry_section_def cfg1_def by (rule refl)
  have "set_command cfg c kind =
     (case check_value (command c) of
           Inl e \<Rightarrow> (cfg1, Some e)
         | Inr v1 \<Rightarrow>
        (case check_value (args c) of
           Inl e \<Rightarrow> (cfg2, Some e)
         | Inr v2 \<Rightarrow>
        (case classes_name kind of
           None \<Rightarrow> (cfg3, Some (TypeError ''option keys must be strings''))
         | Some ck \<Rightarrow>
        (case check_value (str_join CHR '' '' (classes c)) of
           Inl e \<Rightarrow> (cfg3, Some e)
         | Inr v3 \<Rightarrow> (cfg4 ck, None)))))"
    by (simp add: unfolded e1 e2 e3 e3' split: sum.splits option.splits)
  then show ?thesis
    by (simp add: c1 c2 c3 c4 Let_def S_def [symmetric] old_def [symmetric]
          o2_def [symmetric] o3_def [symmetric] split: sum.splits option.splits)
qed








section \<open>Mutation\<close>




text \<open>
  Claim C6. \<^verbatim>\<open>set_url_opener\<close> passes the kind \<^verbatim>\<open>opener\<close>, which has no class key: every call
  fails, with the TypeError of the missing class key unless the parser has refused the
  executable or the arguments before, after it has written a section \<^verbatim>\<open>opener:<name>\<close>
  without domains, a section that \<^verbatim>\<open>get_url_opener\<close>, which scans \<^verbatim>\<open>url-openers\<close>, does not
  read. After adding ytdl for youtube.com and youtu.be, youtu.be still resolves to the
  default.
\<close>

theorem set_url_opener_not_resolvable:
  "snd (set_url_opener cfg c) =
     Some (case check_value (command c) of
             Inl e \<Rightarrow> e
           | Inr v \<Rightarrow>
               (case check_value (args c) of
                  Inl e \<Rightarrow> e
                | Inr v \<Rightarrow> TypeError ''option keys must be strings'')) \<and>
   set_url_opener ex_openers ytdl =
     (\<lparr> defaults = [], sects =
        [(''url-openers:default'', [(''command'', ''qr'')]),
         (''opener:ytdl'', [(''command'', ''/usr/bin/youtube-dl''), (''args'', [])])] \<rparr>,
      Some (TypeError ''option keys must be strings'')) \<and>
   get_url_opener (fst (set_url_opener ex_openers ytdl)) ''youtu.be'' =
     Inr \<lparr>command = ''qr'', args = [], classes = [], name = Some ''url-openers''\<rparr>"
proof -
  have key: "classes_name ''opener'' = None"
    by (simp add: classes_name_def)
  have "snd (set_url_opener cfg c) =
     Some (case check_value (command c) of
             Inl e \<Rightarrow> e
           | Inr v \<Rightarrow>
               (case check_value (args c) of
                  Inl e \<Rightarrow> e
                | Inr v \<Rightarrow> TypeError ''option keys must be strings''))"
    by (simp add: set_url_opener_def set_command_steps key Let_def split: sum.splits)
  moreover have upd: "set_url_opener ex_openers ytdl =
     (\<lparr> defaults = [], sects =
        [(''url-openers:default'', [(''command'', ''qr'')]),
         (''opener:ytdl'', [(''command'', ''/usr/bin/youtube-dl''), (''args'', [])])] \<rparr>,
      Some (TypeError ''option keys must be strings''))"
    by (simp add: change_defs ex_openers_def ytdl_def has_section_def)
  moreover have "get_url_opener (fst (set_url_opener ex_openers ytdl)) ''youtu.be'' =
     Inr \<lparr>command = ''qr'', args = [], classes = [], name = Some ''url-openers''\<rparr>"
    by (simp add: upd) (simp add: resolve_defs store_defs)
  ultimately show ?thesis by simp
qed

text \<open>
  Claim C4, as the code has it. Removing a name that is not a section fails and leaves
  the store as it was. The command line then offers every section name of the store, of
  either mode, that contains the given text, in the store's order; the flat store's own
  \<^verbatim>\<open>__remove_command\<close> raises a ValueError with a fixed message and no suggestion.
\<close>

theorem remove_unknown_name:
  "(\<not> has_section cfg script
      \<longrightarrow> remove cfg script = (cfg, NotFound (filter (sublist script) (sections cfg)))) \<and>
   (\<not> has_section cfg (kind @ '':'' @ n)
      \<longrightarrow> remove_command cfg n kind =
            (cfg, Some (ValueError ''Command not found in config file.'')))"
proof -
  have "filter (str_in script) (sections cfg) = filter (sublist script) (sections cfg)"
    by (rule filter_cong) (simp_all add: str_in_sublist)
  then show ?thesis
    by (simp add: remove_def remove_command_def remove_section_def)
qed

theorem remove_unknown_name_witness:
  "\<not> has_section ex_cli ''ano'' \<and>
   remove ex_cli ''ano'' = (ex_cli, NotFound [''editor:nano'', ''opener:nano-web'']) \<and>
   \<not> has_section ex_editors (''file-editors'' @ '':'' @ ''nan'') \<and>
   remove_command ex_editors ''nan'' ''file-editors'' =
     (ex_editors, Some (ValueError ''Command not found in config file.''))"
proof -
  have a: "\<not> has_section ex_cli ''ano''"
    by (simp add: ex_cli_def has_section_def)
  have b: "\<not> has_section ex_editors (''file-editors'' @ '':'' @ ''nan'')"
    by (simp add: ex_editors_def has_section_def)
  have f: "filter (sublist ''ano'') (sections ex_cli) = [''editor:nano'', ''opener:nano-web'']"
    by (simp add: str_in_sublist [symmetric] ex_cli_def sections_def)
  from remove_unknown_name [where cfg = ex_cli and script = "''ano''"]
       remove_unknown_name [where cfg = ex_editors and kind = "''file-editors''" and n = "''nan''"]
       a b f
  show ?thesis by simp
qed

text \<open>
  Against claim C4 as stated: the guesses for nano hold a rule of each mode, so they are
  not the names of one partition; and the flat store's failure for nan names no section,
  although nan is part of nano.
\<close>

theorem remove_suggestions_counterexample:
  "remove ex_cli ''nano'' = (ex_cli, NotFound [''editor:nano'', ''opener:nano-web'']) \<and>
   \<not> str_in ''editor'' ''opener:nano-web'' \<and>
   \<not> str_in ''opener'' ''editor:nano'' \<and>
   remove_file_editor ex_editors ''nan'' =
     (ex_editors, Some (ValueError ''Command not found in config file.'')) \<and>
   str_in ''nan'' ''nano''"
  by (simp add: remove_def remove_file_editor_def remove_command_def remove_section_def
        ex_cli_def ex_editors_def has_section_def sections_def)




section \<open>Saving and loading the structured store\<close>

lemmas yaml_defs = yaml_save_def yaml_as_dict_def yaml_load_def rename_classes_def

text \<open>
  Claim C2. \<^verbatim>\<open>as_dict\<close> files the two partitions under \<^verbatim>\<open>file_editors\<close> and \<^verbatim>\<open>url_openers\<close>,
  \<^verbatim>\<open>load\<close> looks for \<^verbatim>\<open>file-editors\<close> and \<^verbatim>\<open>url-openers\<close>: whatever a \<^verbatim>\<open>YAMLConfig\<close> saves,
  loading it back finds no editors and raises AttributeError instead of returning the
  store.
\<close>

theorem yaml_load_of_save_fails:
  assumes "yaml_save as_dict r = Inr file"
  shows "yaml_load command_dict file = Inl (AttributeError ''get'')"
proof -
  from assms obtain editors openers where
    "file = YDict [(''file_editors'', editors), (''url_openers'', openers)]"
    by (auto simp: yaml_save_def yaml_as_dict_def split: option.splits sum.splits)
  then show ?thesis
    by (simp add: yaml_load_def rename_classes_def)
qed

text \<open>
  The example store is what \<^verbatim>\<open>load\<close> makes of its file; saved, it cannot be loaded again.
\<close>

theorem yaml_load_of_save_fails_witness:
  "yaml_load Inr ex_yaml_file = Inr ex_yaml \<and>
   yaml_save (\<lambda>d. d) ex_yaml = Inr (YDict
     [(''file_editors'', YDict
         [(''commands'', YDict
            [(''nano'', YDict [(''command'', YStr ''nano''), (''args'', YStr []),
                               (''extensions'', YList [YStr ''txt''])])]),
          (''default'', YDict [(''command'', YStr ''vi'')])]),
      (''url_openers'', YDict
         [(''commands'', YDict []),
          (''default'', YDict [(''command'', YStr ''qr'')])])]) \<and>
   yaml_load Inr (YDict
     [(''file_editors'', YDict
         [(''commands'', YDict
            [(''nano'', YDict [(''command'', YStr ''nano''), (''args'', YStr []),
                               (''extensions'', YList [YStr ''txt''])])]),
          (''default'', YDict [(''command'', YStr ''vi'')])]),
      (''url_openers'', YDict
         [(''commands'', YDict []),
          (''default'', YDict [(''command'', YStr ''qr'')])])])
     = (Inl (AttributeError ''get'') :: error + yaml yaml_config)"
proof -
  have l: "yaml_load Inr ex_yaml_file = Inr ex_yaml"
    by (simp add: yaml_defs ex_yaml_file_def ex_yaml_def)
  have s: "yaml_save (\<lambda>d. d) ex_yaml = Inr (YDict
     [(''file_editors'', YDict
         [(''commands'', YDict
            [(''nano'', YDict [(''command'', YStr ''nano''), (''args'', YStr []),
                               (''extensions'', YList [YStr ''txt''])])]),
          (''default'', YDict [(''command'', YStr ''vi'')])]),
      (''url_openers'', YDict
         [(''commands'', YDict []),
          (''default'', YDict [(''command'', YStr ''qr'')])])])"
    by (simp add: yaml_defs ex_yaml_def)
  from yaml_load_of_save_fails [OF s, of Inr] l s show ?thesis by simp
qed

section \<open>The two stores side by side\<close>



















end
